theory Spec2Isabelle
  imports Main
begin

section \<open>Response JSON extraction (generateMindmapFromTranscripts, lines 675-706)\<close>

text \<open>
  The response text is a JavaScript string; it is modelled as a \<^typ>\<open>string\<close> whose
  characters are the code units of the text. Only the two characters \<open>{\<close> and \<open>}\<close>
  are inspected by this step.
\<close>

definition lbrace :: char where
  "lbrace = CHR ''{''"

definition rbrace :: char where
  "rbrace = CHR ''}''"

text \<open>
  \<open>responseText.match(/\{[\s\S]*\}/)\<close>: the regular expression engine takes the leftmost
  \<open>{\<close> from which a match exists and extends \<open>[\s\S]*\<close> greedily, so the match runs from
  the first \<open>{\<close> to the last \<open>}\<close> after it; there is no match when no \<open>}\<close> follows
  the first \<open>{\<close>. \<open>None\<close> is JavaScript's \<open>null\<close>.
\<close>

definition greedyMatch :: "string \<Rightarrow> string option" where
  "greedyMatch responseText =
     (let t = dropWhile (\<lambda>c. c \<noteq> lbrace) responseText
      in if t = [] then None
         else if rbrace \<in> set (tl t)
              then Some (rev (dropWhile (\<lambda>c. c \<noteq> rbrace) (rev t)))
              else None)"

text \<open>\<open>responseText.indexOf('{')\<close>; \<open>None\<close> is the result \<open>-1\<close>.\<close>

definition indexOf :: "string \<Rightarrow> char \<Rightarrow> nat option" where
  "indexOf s c = (if c \<in> set s then Some (length (takeWhile (\<lambda>x. x \<noteq> c) s)) else None)"

text \<open>\<open>s.substring(a, b)\<close>: the arguments are clamped to the length and swapped when \<open>a > b\<close>.\<close>

definition substring :: "string \<Rightarrow> nat \<Rightarrow> nat \<Rightarrow> string" where
  "substring s a b = (let lo = min a b; hi = max a b in take (hi - lo) (drop lo s))"

text \<open>
  The \<open>for\<close> loop of lines 689-696, started at \<open>i = firstBrace\<close> on the characters from that
  index on. It returns the final \<open>braceCount\<close> and \<open>endIndex\<close>; the \<open>break\<close> is the branch
  that stops the recursion.
\<close>

fun braceLoop :: "string \<Rightarrow> nat \<Rightarrow> int \<Rightarrow> nat \<Rightarrow> int \<times> nat" where
  "braceLoop [] i braceCount endIndex = (braceCount, endIndex)"
| "braceLoop (c # cs) i braceCount endIndex =
     (let b1 = (if c = lbrace then braceCount + 1 else braceCount);
          b2 = (if c = rbrace then b1 - 1 else b1)
      in if b2 = 0 then (b2, i + 1) else braceLoop cs (i + 1) b2 endIndex)"

definition braceFallback :: "string \<Rightarrow> string option" where
  "braceFallback responseText =
     (case indexOf responseText lbrace of
        None \<Rightarrow> None
      | Some firstBrace \<Rightarrow>
          (case braceLoop (drop firstBrace responseText) firstBrace 0 firstBrace of
             (braceCount, endIndex) \<Rightarrow>
               if braceCount = 0 then Some (substring responseText firstBrace endIndex)
               else None))"

datatype gen_error =
    NoJsonFound string

text \<open>
  Lines 679-706: the greedy match, then the fallback when it is \<open>null\<close>, then the
  \<open>No JSON found\<close> error carrying the first 200 characters of the text.
\<close>

definition extractJson :: "string \<Rightarrow> gen_error + string" where
  "extractJson responseText =
     (let jsonMatch = (case greedyMatch responseText of
                         Some m \<Rightarrow> Some m
                       | None \<Rightarrow> braceFallback responseText)
      in case jsonMatch of
           None \<Rightarrow> Inl (NoJsonFound (substring responseText 0 200))
         | Some m \<Rightarrow> Inr m)"

text \<open>The extraction with the fallback removed: the greedy match alone.\<close>

definition extractJsonGreedyOnly :: "string \<Rightarrow> gen_error + string" where
  "extractJsonGreedyOnly responseText =
     (case greedyMatch responseText of
        None \<Rightarrow> Inl (NoJsonFound (substring responseText 0 200))
      | Some m \<Rightarrow> Inr m)"

section \<open>JavaScript strings and numbers used by the service\<close>

text \<open>
  Labels are modelled as ASCII text. \<open>toLowerCase\<close> maps \<open>A\<close>-\<open>Z\<close> to \<open>a\<close>-\<open>z\<close>; the white
  space of \<open>trim\<close> and of the regular expression class \<open>\s\<close> is tab, line feed, vertical
  tab, form feed, carriage return and space. Characters above 127 are left alone by both,
  which is where the model stops following JavaScript.
\<close>

definition toLowerChar :: "char \<Rightarrow> char" where
  "toLowerChar c =
     (case map_of (zip ''ABCDEFGHIJKLMNOPQRSTUVWXYZ'' ''abcdefghijklmnopqrstuvwxyz'') c of
        Some l \<Rightarrow> l
      | None \<Rightarrow> c)"

definition toLowerCase :: "string \<Rightarrow> string" where
  "toLowerCase s = map toLowerChar s"

definition isWhiteSpace :: "char \<Rightarrow> bool" where
  "isWhiteSpace c =
     (c \<in> set [CHR 0x09, CHR 0x0A, CHR 0x0B, CHR 0x0C, CHR 0x0D, CHR 0x20])"

definition trim :: "string \<Rightarrow> string" where
  "trim s = rev (dropWhile isWhiteSpace (rev (dropWhile isWhiteSpace s)))"

text \<open>
  \<open>s.split(/\s+/)\<close>: the pieces between maximal runs of white space. A leading or a
  trailing run leaves an empty piece, and the empty string splits into one empty piece.
  The second argument is the piece being read, the third says whether the previous
  character was white space.
\<close>

fun splitLoop :: "string \<Rightarrow> string \<Rightarrow> bool \<Rightarrow> string list" where
  "splitLoop [] w inRun = [w]"
| "splitLoop (c # cs) w inRun =
     (if isWhiteSpace c
      then (if inRun then splitLoop cs w True else w # splitLoop cs [] True)
      else splitLoop cs (w @ [c]) False)"

definition splitWhitespace :: "string \<Rightarrow> string list" where
  "splitWhitespace s = splitLoop s [] False"

fun startsWith :: "string \<Rightarrow> string \<Rightarrow> bool" where
  "startsWith s [] = True"
| "startsWith [] (c # cs) = False"
| "startsWith (x # xs) (c # cs) = (x = c \<and> startsWith xs cs)"

text \<open>\<open>s.includes(t)\<close>: \<open>t\<close> occurs in \<open>s\<close> as a contiguous substring.\<close>

fun stringIncludes :: "string \<Rightarrow> string \<Rightarrow> bool" where
  "stringIncludes [] t = (t = [])"
| "stringIncludes (x # xs) t = (startsWith (x # xs) t \<or> stringIncludes xs t)"

text \<open>Decimal rendering of a number inside a template literal.\<close>

fun showNat :: "nat \<Rightarrow> string" where
  "showNat n =
     (if n < 10 then [''0123456789'' ! n]
      else showNat (n div 10) @ [''0123456789'' ! (n mod 10)])"

declare showNat.simps [simp del]

definition showInt :: "int \<Rightarrow> string" where
  "showInt i = (if i < 0 then CHR ''-'' # showNat (nat (- i)) else showNat (nat i))"

text \<open>
  \<open>Date.now()\<close> and \<open>Math.random().toString(36).substr(2, 9)\<close> are inputs of the model:
  \<open>dateNow k\<close> is what the \<open>k\<close>-th call of \<open>Date.now()\<close> inside the modelled operation
  returns, \<open>random k\<close> the string made from the \<open>k\<close>-th call of \<open>Math.random()\<close>.
\<close>

type_synonym clock = "nat \<Rightarrow> int"
type_synonym rng = "nat \<Rightarrow> string"

text \<open>\<open>x || d\<close> on an optional string: \<open>undefined\<close>, \<open>null\<close> and \<open>''\<close> are falsy.\<close>

definition truthyString :: "string option \<Rightarrow> bool" where
  "truthyString x = (case x of None \<Rightarrow> False | Some s \<Rightarrow> s \<noteq> [])"

section \<open>Data model\<close>

text \<open>
  Optional fields are options: \<open>None\<close> is an absent (\<open>undefined\<close> or \<open>null\<close>) field. A
  label and a node type are strings, with the empty string standing for an absent one as
  well: the code only ever tests them for truthiness.
\<close>

record node_metadata =
  firstMentioned :: "int option"
  speaker :: "string option"
  transcriptIndices :: "int list option"
  summarizedNodes :: "string option list option"

record node =
  nid :: "string option"
  label :: string
  ntype :: string
  level :: "nat option"
  color :: "string option"
  nsize :: "int option"
  nodeMetadata :: "node_metadata option"
  expandable :: "bool option"

record edge =
  eid :: "string option"
  efrom :: "string option"
  eto :: "string option"
  etype :: "string option"
  ecolor :: "string option"

record mindmap_metadata =
  sessionId :: "string option"
  lastUpdated :: "int option"
  version :: "int option"
  totalTranscripts :: "int option"
  error :: "string option"

record mindmap =
  nodes :: "node list"
  edges :: "edge list"
  metadata :: mindmap_metadata

text \<open>The delta handed to the merge; an absent \<open>nodes\<close> or \<open>edges\<close> is the empty list.\<close>

record updates =
  newNodes :: "node list"
  newEdges :: "edge list"

text \<open>\<open>metadata?.version || 0\<close>.\<close>

definition versionOf :: "mindmap \<Rightarrow> int" where
  "versionOf m = (case version (metadata m) of None \<Rightarrow> 0 | Some v \<Rightarrow> v)"

definition emptyNodeMetadata :: node_metadata where
  "emptyNodeMetadata =
     \<lparr>firstMentioned = None, speaker = None, transcriptIndices = None, summarizedNodes = None\<rparr>"

section \<open>nodesSimilar (lines 187-207)\<close>

text \<open>
  \<open>commonWords.length / Math.max(words1.length, words2.length) > 0.5\<close> compares a quotient
  of two small non-negative integers with one half, which is \<open>2 * c > m\<close>.
\<close>

definition nodesSimilar :: "string \<Rightarrow> string \<Rightarrow> bool" where
  "nodesSimilar label1 label2 =
     (if label1 = [] \<or> label2 = [] then False
      else let normalized1 = trim (toLowerCase label1);
               normalized2 = trim (toLowerCase label2)
           in if normalized1 = normalized2 then True
              else if stringIncludes normalized1 normalized2 \<or> stringIncludes normalized2 normalized1
                   then True
              else let words1 = splitWhitespace normalized1;
                       words2 = splitWhitespace normalized2;
                       commonWords = filter (\<lambda>w. w \<in> set words2) words1
                   in 2 * length commonWords > max (length words1) (length words2))"

section \<open>mergeMindmapUpdates (lines 127-182)\<close>

text \<open>\<open>Array.prototype.findIndex\<close>, the position \<open>find\<close> stops at.\<close>

fun findIndex :: "('a \<Rightarrow> bool) \<Rightarrow> 'a list \<Rightarrow> nat option" where
  "findIndex P [] = None"
| "findIndex P (x # xs) = (if P x then Some 0 else map_option Suc (findIndex P xs))"

text \<open>
  The generated identifier \<open>`node-${Date.now()}-${Math.random()...}`\<close>. The first call of
  \<open>Date.now()\<close> in a merge stamps \<open>lastUpdated\<close>, so the \<open>k\<close>-th generated identifier reads
  the clock at call \<open>k + 1\<close>.
\<close>

definition generatedId :: "string \<Rightarrow> clock \<Rightarrow> rng \<Rightarrow> nat \<Rightarrow> string" where
  "generatedId prefix dateNow random k =
     prefix @ ''-'' @ showInt (dateNow (Suc k)) @ ''-'' @ random k"

text \<open>\<open>x.id || `prefix-...`\<close>, when \<open>k\<close> identifiers have been generated before.\<close>

definition idOrGenerated :: "string \<Rightarrow> clock \<Rightarrow> rng \<Rightarrow> nat \<Rightarrow> string option \<Rightarrow> string option" where
  "idOrGenerated prefix dateNow random k x =
     (if truthyString x then x else Some (generatedId prefix dateNow random k))"

text \<open>\<open>newNode.metadata?.transcriptIndices\<close>.\<close>

definition incomingIndices :: "node \<Rightarrow> int list option" where
  "incomingIndices n =
     (case nodeMetadata n of None \<Rightarrow> None | Some md \<Rightarrow> transcriptIndices md)"

text \<open>
  Lines 153-160: the existing node keeps every field but \<open>metadata.transcriptIndices\<close>,
  which becomes its own indices followed by the incoming ones.
\<close>

definition absorbIndices :: "node \<Rightarrow> int list \<Rightarrow> node" where
  "absorbIndices existingNode incoming =
     (let md = (case nodeMetadata existingNode of None \<Rightarrow> emptyNodeMetadata | Some m \<Rightarrow> m);
          own = (case transcriptIndices md of None \<Rightarrow> [] | Some xs \<Rightarrow> xs)
      in existingNode\<lparr>nodeMetadata := Some (md\<lparr>transcriptIndices := Some (own @ incoming)\<rparr>)\<rparr>)"

text \<open>
  One pass of the loop over \<open>updates.nodes\<close>. The state is \<open>merged.nodes\<close> and the number
  of identifiers generated so far. \<open>find\<close> returns a reference into \<open>merged.nodes\<close> and the
  assignment changes that element in place, which is the list update here. The model takes
  the nodes of the delta to be distinct objects that share no metadata object, as parsed
  JSON is.
\<close>

definition mergeNode :: "clock \<Rightarrow> rng \<Rightarrow> node list \<times> nat \<Rightarrow> node \<Rightarrow> node list \<times> nat" where
  "mergeNode dateNow random st newNode =
     (case st of (mergedNodes, k) \<Rightarrow>
        (case findIndex (\<lambda>n. nodesSimilar (label n) (label newNode)) mergedNodes of
           None \<Rightarrow>
             (mergedNodes @ [newNode\<lparr>nid := idOrGenerated ''node'' dateNow random k (nid newNode)\<rparr>],
              if truthyString (nid newNode) then k else Suc k)
         | Some i \<Rightarrow>
             (case incomingIndices newNode of
                None \<Rightarrow> (mergedNodes, k)
              | Some incoming \<Rightarrow>
                  (mergedNodes[i := absorbIndices (mergedNodes ! i) incoming], k))))"

text \<open>One pass of the loop over \<open>updates.edges\<close> (lines 167-178).\<close>

definition mergeEdge :: "clock \<Rightarrow> rng \<Rightarrow> edge list \<times> nat \<Rightarrow> edge \<Rightarrow> edge list \<times> nat" where
  "mergeEdge dateNow random st newEdge =
     (case st of (mergedEdges, k) \<Rightarrow>
        (case find (\<lambda>e. efrom e = efrom newEdge \<and> eto e = eto newEdge) mergedEdges of
           Some existingEdge \<Rightarrow> (mergedEdges, k)
         | None \<Rightarrow>
             (mergedEdges @ [newEdge\<lparr>eid := idOrGenerated ''edge'' dateNow random k (eid newEdge)\<rparr>],
              if truthyString (eid newEdge) then k else Suc k)))"

definition mergeMindmapUpdates :: "clock \<Rightarrow> rng \<Rightarrow> mindmap \<Rightarrow> updates \<Rightarrow> mindmap" where
  "mergeMindmapUpdates dateNow random existingMindmap upd =
     (case foldl (mergeNode dateNow random) (nodes existingMindmap, 0) (newNodes upd) of
        (mergedNodes, k) \<Rightarrow>
          (case foldl (mergeEdge dateNow random) (edges existingMindmap, k) (newEdges upd) of
             (mergedEdges, k') \<Rightarrow>
               \<lparr>nodes = mergedNodes,
                edges = mergedEdges,
                metadata = (metadata existingMindmap)
                  \<lparr>version := Some (versionOf existingMindmap + 1),
                   lastUpdated := Some (dateNow 0)\<rparr>\<rparr>))"

section \<open>summarizeOlderNodes (lines 212-307)\<close>

text \<open>\<open>metadata?.firstMentioned || 0\<close> and \<open>node.level || 1\<close>.\<close>

definition firstMentionedOf :: "node \<Rightarrow> int" where
  "firstMentionedOf n =
     (case nodeMetadata n of
        None \<Rightarrow> 0
      | Some md \<Rightarrow> (case firstMentioned md of None \<Rightarrow> 0 | Some t \<Rightarrow> t))"

definition levelOf :: "node \<Rightarrow> nat" where
  "levelOf n = (case level n of None \<Rightarrow> 1 | Some l \<Rightarrow> if l = 0 then 1 else l)"

text \<open>
  \<open>xs.slice(start, end)\<close>: a negative index counts from the end, and both are clamped to
  the length. \<open>slice(-0)\<close> is \<open>slice(0)\<close>, the whole array.
\<close>

definition relativeIndex :: "nat \<Rightarrow> int \<Rightarrow> nat" where
  "relativeIndex len i = (if i < 0 then nat (max (int len + i) 0) else min (nat i) len)"

definition slice :: "'a list \<Rightarrow> int \<Rightarrow> int \<Rightarrow> 'a list" where
  "slice xs start stop =
     (let s = relativeIndex (length xs) start; e = relativeIndex (length xs) stop
      in take (e - s) (drop s xs))"

text \<open>
  The object \<open>byLevel\<close> is an association list in insertion order. \<open>Object.keys\<close> lists the
  keys that are array indices (below \<open>2^32 - 1\<close>) in ascending order first and the others in
  insertion order after them.
\<close>

fun pushByLevel :: "(nat \<times> node list) list \<Rightarrow> nat \<Rightarrow> node \<Rightarrow> (nat \<times> node list) list" where
  "pushByLevel [] l n = [(l, [n])]"
| "pushByLevel ((k, ns) # rest) l n =
     (if k = l then (k, ns @ [n]) # rest else (k, ns) # pushByLevel rest l n)"

definition groupByLevel :: "node list \<Rightarrow> (nat \<times> node list) list" where
  "groupByLevel olderNodes = foldl (\<lambda>byLevel n. pushByLevel byLevel (levelOf n) n) [] olderNodes"

definition objectKeys :: "(nat \<times> 'a) list \<Rightarrow> nat list" where
  "objectKeys obj =
     (let ks = map fst obj
      in sort (filter (\<lambda>k. k < 4294967295) ks) @ filter (\<lambda>k. \<not> k < 4294967295) ks)"

text \<open>\<open>Math.min(...xs)\<close> on a non-empty list of numbers.\<close>

fun mathMin :: "int list \<Rightarrow> int" where
  "mathMin [] = 0"
| "mathMin [x] = x"
| "mathMin (x # y # ys) = min x (mathMin (y # ys))"

definition summaryNode :: "int \<Rightarrow> nat \<Rightarrow> node list \<Rightarrow> node" where
  "summaryNode now lvl ns =
     \<lparr>nid = Some (''summary-'' @ showNat lvl @ ''-'' @ showInt now),
      label = showNat (length ns) @ '' '' @
              (case ns of [] \<Rightarrow> ''items'' | n0 # _ \<Rightarrow> if ntype n0 = [] then ''items'' else ntype n0),
      ntype = ''summary'',
      level = Some lvl,
      color = Some ''#9B9B9B'',
      nsize = Some 15,
      nodeMetadata = Some \<lparr>firstMentioned = Some (mathMin (map firstMentionedOf ns)),
                            speaker = None,
                            transcriptIndices = None,
                            summarizedNodes = Some (map nid ns)\<rparr>,
      expandable = Some True\<rparr>"

text \<open>
  The body of \<open>Object.keys(byLevel).forEach\<close>: one summary node per non-empty group. Each
  summary node reads the clock once, so the next read is the number of summary nodes made.
\<close>

definition pushSummary :: "clock \<Rightarrow> (nat \<times> node list) list \<Rightarrow> node list \<Rightarrow> nat \<Rightarrow> node list" where
  "pushSummary dateNow byLevel summaryNodes lvl =
     (case map_of byLevel lvl of
        None \<Rightarrow> summaryNodes
      | Some ns \<Rightarrow>
          (if length ns > 0
           then summaryNodes @ [summaryNode (dateNow (length summaryNodes)) lvl ns]
           else summaryNodes))"

definition createSummaryNodes :: "clock \<Rightarrow> node list \<Rightarrow> node list" where
  "createSummaryNodes dateNow olderNodes =
     (let byLevel = groupByLevel olderNodes
      in foldl (pushSummary dateNow byLevel) [] (objectKeys byLevel))"

text \<open>\<open>s.metadata?.summarizedNodes?.includes(x)\<close>.\<close>

definition summarizes :: "string option \<Rightarrow> node \<Rightarrow> bool" where
  "summarizes x s =
     (case nodeMetadata s of
        None \<Rightarrow> False
      | Some md \<Rightarrow> (case summarizedNodes md of None \<Rightarrow> False | Some ids \<Rightarrow> x \<in> set ids))"

text \<open>The body of \<open>edges.forEach\<close> in \<open>updateEdgesForSummaries\<close>: the edges it pushes.\<close>

definition updateEdge :: "node list \<Rightarrow> node list \<Rightarrow> edge \<Rightarrow> edge list" where
  "updateEdge oldNodes summaryNodes e =
     (let fromIsOld = efrom e \<in> set (map nid oldNodes);
          toIsOld = eto e \<in> set (map nid oldNodes)
      in if fromIsOld \<and> toIsOld then []
         else if fromIsOld then
           (case find (summarizes (efrom e)) summaryNodes of
              None \<Rightarrow> []
            | Some s \<Rightarrow> [e\<lparr>efrom := nid s\<rparr>])
         else if toIsOld then
           (case find (summarizes (eto e)) summaryNodes of
              None \<Rightarrow> []
            | Some s \<Rightarrow> [e\<lparr>eto := nid s\<rparr>])
         else [e])"

definition updateEdgesForSummaries :: "edge list \<Rightarrow> node list \<Rightarrow> node list \<Rightarrow> edge list" where
  "updateEdgesForSummaries es oldNodes summaryNodes =
     concat (map (updateEdge oldNodes summaryNodes) es)"

text \<open>
  \<open>sort\<close> with the comparator \<open>timeA - timeB\<close> is a stable sort on \<open>firstMentionedOf\<close>, as
  \<^const>\<open>sort_key\<close> is.
\<close>

definition summarizeOlderNodes :: "clock \<Rightarrow> mindmap \<Rightarrow> int \<Rightarrow> mindmap" where
  "summarizeOlderNodes dateNow m maxNodes =
     (if int (length (nodes m)) \<le> maxNodes then m
      else let sortedNodes = sort_key firstMentionedOf (nodes m);
               recentNodes = slice sortedNodes (- maxNodes) (int (length sortedNodes));
               olderNodes = slice sortedNodes 0 (int (length sortedNodes) - maxNodes);
               summaryNodes = createSummaryNodes dateNow olderNodes;
               updatedEdges = updateEdgesForSummaries (edges m) olderNodes summaryNodes
           in \<lparr>nodes = recentNodes @ summaryNodes,
               edges = updatedEdges,
               metadata = metadata m\<rparr>)"

text \<open>The invariant of the data model: no edge has a dangling endpoint.\<close>

definition noDanglingEdges :: "mindmap \<Rightarrow> bool" where
  "noDanglingEdges m =
     (\<forall>e \<in> set (edges m). efrom e \<in> set (map nid (nodes m)) \<and> eto e \<in> set (map nid (nodes m)))"

text \<open>
  What the merge keeps of a node: its identity and its visual attributes, that is every
  field but the metadata. The transcript indices of a node, and the endpoints of an edge.
\<close>

definition nodeFrame ::
  "node \<Rightarrow> string option \<times> string \<times> string \<times> nat option \<times> string option \<times> int option \<times> bool option" where
  "nodeFrame n = (nid n, label n, ntype n, level n, color n, nsize n, expandable n)"

definition indicesOf :: "node \<Rightarrow> int list" where
  "indicesOf n = (case incomingIndices n of None \<Rightarrow> [] | Some xs \<Rightarrow> xs)"

definition endpoints :: "edge \<Rightarrow> string option \<times> string option" where
  "endpoints e = (efrom e, eto e)"

section \<open>saveMindmap (lines 735-781)\<close>

text \<open>
  A row of the summary repository, as \<open>getSummaryBySessionId\<close> returns it and as
  \<open>saveSummary\<close> receives it. \<open>None\<close> is an absent or \<open>null\<close> column. The source names the
  summary text \<open>text\<close> and the session \<open>sessionId\<close>.
\<close>

record summary =
  summarySessionId :: "string option"
  mindmap_json :: "string option"
  summaryText :: "string option"
  tldr :: "string option"
  bullet_json :: "string option"
  action_json :: "string option"
  model :: "string option"
  generated_at :: "int option"
  updated_at :: "int option"

text \<open>
  The repository is outside the service. Its two operations are inputs of the model:
  what the read returns (\<open>Inl\<close> a thrown error's message) and whether the write throws
  (\<open>Some\<close> the message). \<open>JSON.stringify\<close> is an input as well.
\<close>

record repository =
  getSummaryBySessionId :: "string \<Rightarrow> string + summary option"
  saveSummary :: "summary \<Rightarrow> string option"

text \<open>\<open>x || d\<close> for a string column and for a number column (\<open>0\<close> is falsy).\<close>

definition orString :: "string option \<Rightarrow> string \<Rightarrow> string" where
  "orString x d = (case x of None \<Rightarrow> d | Some s \<Rightarrow> if s = [] then d else s)"

definition orNumber :: "int option \<Rightarrow> int \<Rightarrow> int" where
  "orNumber x d = (case x of None \<Rightarrow> d | Some n \<Rightarrow> if n = 0 then d else n)"

text \<open>\<open>x || d\<close> keeps \<open>x\<close> exactly when \<open>x\<close> is truthy; for a number that is \<open>x \<noteq> 0\<close>.\<close>

definition truthyNumber :: "int option \<Rightarrow> bool" where
  "truthyNumber x = (case x of None \<Rightarrow> False | Some n \<Rightarrow> n \<noteq> 0)"

text \<open>
  \<open>saveMindmap\<close> returns nothing; its effect is the row handed to \<open>saveSummary\<close>, which is
  the result \<open>Inr\<close> here. \<open>Inl\<close> is the message of the error it throws. \<open>nowMs\<close> is the value
  of its call of \<open>Date.now()\<close>.
\<close>

definition saveMindmap ::
  "repository \<Rightarrow> (mindmap \<Rightarrow> string) \<Rightarrow> int \<Rightarrow> string option \<Rightarrow> mindmap \<Rightarrow> string + summary" where
  "saveMindmap repo stringify nowMs currentSessionId m =
     (case currentSessionId of
        None \<Rightarrow> Inl ''No active session to save mindmap''
      | Some sid \<Rightarrow>
          if sid = [] then Inl ''No active session to save mindmap''
          else
            (case getSummaryBySessionId repo sid of
               Inl err \<Rightarrow> Inl err
             | Inr existingSummary \<Rightarrow>
                 (let mindmapJson = stringify m;
                      now = nowMs div 1000;
                      row = (case existingSummary of
                               Some existing \<Rightarrow>
                                 \<lparr>summarySessionId = Some sid,
                                  mindmap_json = Some mindmapJson,
                                  summaryText = Some (orString (summaryText existing) []),
                                  tldr = Some (orString (tldr existing) []),
                                  bullet_json = Some (orString (bullet_json existing) []),
                                  action_json = Some (orString (action_json existing) []),
                                  model = Some (orString (model existing) ''unknown''),
                                  generated_at = Some (orNumber (generated_at existing) now),
                                  updated_at = Some now\<rparr>
                             | None \<Rightarrow>
                                 \<lparr>summarySessionId = Some sid,
                                  mindmap_json = Some mindmapJson,
                                  summaryText = Some [],
                                  tldr = Some [],
                                  bullet_json = Some [],
                                  action_json = Some [],
                                  model = Some ''unknown'',
                                  generated_at = Some now,
                                  updated_at = Some now\<rparr>)
                  in case saveSummary repo row of
                       Some err \<Rightarrow> Inl err
                     | None \<Rightarrow> Inr row)))"

section \<open>updateMindmap (lines 309-414)\<close>

record transcript =
  transcriptSpeaker :: "string option"
  transcriptText :: "string option"
  start_at :: "int option"

text \<open>What one call of \<open>generateMindmapFromTranscripts\<close> returns.\<close>

record payload =
  payloadNodes :: "node list option"
  payloadEdges :: "edge list option"

text \<open>The fields of the service object that the update cycle reads or writes.\<close>

record service =
  currentMindmap :: mindmap
  currentSessionId :: "string option"
  pendingTranscripts :: "transcript list"

text \<open>
  Everything the cycle awaits or reads from outside is an input: the transcripts of the
  session (\<open>Inl\<close> when the repository throws), the outcome of the \<open>k\<close>-th call of the
  generator (\<open>Inl\<close> the message of the error it throws), the summary repository, and the
  clock. \<open>cycleDateNow 0\<close> stamps \<open>lastUpdated\<close>, the summary nodes read the clock from call 1
  on; the calls in \<open>saveMindmap\<close> and in the \<open>catch\<close> block have inputs of their own.
\<close>

record cycle_env =
  getAllTranscriptsBySessionId :: "string + transcript list option"
  generateMindmapFromTranscripts :: "nat \<Rightarrow> string + payload option"
  summaryRepository :: repository
  jsonStringify :: "mindmap \<Rightarrow> string"
  cycleDateNow :: clock
  saveDateNow :: int
  catchDateNow :: int

datatype cycle_outcome =
    Skipped
  | Updated mindmap
  | Failed string

text \<open>\<open>mindmapData && mindmapData.nodes && mindmapData.edges\<close>; an array is always truthy.\<close>

definition payloadOk :: "payload option \<Rightarrow> bool" where
  "payloadOk d =
     (case d of
        None \<Rightarrow> False
      | Some p \<Rightarrow> payloadNodes p \<noteq> None \<and> payloadEdges p \<noteq> None)"

text \<open>
  The \<open>while (retries >= 0)\<close> loop of lines 332-347, returning \<open>mindmapData\<close> and
  \<open>lastError\<close>. \<open>attempt\<close> counts the calls of the generator. The two-second wait between
  attempts is not modelled.
\<close>

function retryLoop ::
  "(nat \<Rightarrow> string + payload option) \<Rightarrow> nat \<Rightarrow> int \<Rightarrow> payload option \<Rightarrow> string option
   \<Rightarrow> payload option \<times> string option" where
  "retryLoop gen attempt retries mindmapData lastError =
     (if retries \<ge> 0
      then (case gen attempt of
              Inr d \<Rightarrow>
                if payloadOk d then (d, lastError)
                else retryLoop gen (Suc attempt) (retries - 1) d lastError
            | Inl err \<Rightarrow> retryLoop gen (Suc attempt) (retries - 1) mindmapData (Some err))
      else (mindmapData, lastError))"
  by pat_completeness auto
termination
  by (relation "measure (\<lambda>(gen, attempt, retries, mindmapData, lastError). nat (retries + 1))") auto

declare retryLoop.simps [simp del]

text \<open>The \<open>catch\<close> block of lines 389-413.\<close>

definition catchBlock :: "cycle_env \<Rightarrow> string \<Rightarrow> service \<Rightarrow> service \<times> cycle_outcome" where
  "catchBlock env message s =
     (if length (nodes (currentMindmap s)) > 0 then (s, Failed message)
      else (s\<lparr>currentMindmap :=
                \<lparr>nodes = [],
                 edges = [],
                 metadata = \<lparr>sessionId = currentSessionId s,
                             lastUpdated = Some (catchDateNow env),
                             version = Some 0,
                             totalTranscripts = Some 0,
                             error = Some message\<rparr>\<rparr>\<rparr>,
            Failed message))"

definition updateMindmap :: "cycle_env \<Rightarrow> service \<Rightarrow> service \<times> cycle_outcome" where
  "updateMindmap env s =
     (if \<not> truthyString (currentSessionId s) then (s, Skipped)
      else
        (case getAllTranscriptsBySessionId env of
           Inl err \<Rightarrow> catchBlock env err s
         | Inr allTranscripts \<Rightarrow>
             (case allTranscripts of
                None \<Rightarrow> (s, Skipped)
              | Some ts \<Rightarrow>
                  if length ts = 0 then (s, Skipped)
                  else
                    (case retryLoop (generateMindmapFromTranscripts env) 0 2 None None of
                       (mindmapData, lastError) \<Rightarrow>
                         if \<not> payloadOk mindmapData
                         then catchBlock env
                                (case lastError of
                                   Some err \<Rightarrow> err
                                 | None \<Rightarrow> ''Failed to generate mindmap after retries'') s
                         else
                           (let newMindmap =
                                  \<lparr>nodes = (case mindmapData of
                                              None \<Rightarrow> []
                                            | Some p \<Rightarrow> (case payloadNodes p of None \<Rightarrow> [] | Some ns \<Rightarrow> ns)),
                                   edges = (case mindmapData of
                                              None \<Rightarrow> []
                                            | Some p \<Rightarrow> (case payloadEdges p of None \<Rightarrow> [] | Some es \<Rightarrow> es)),
                                   metadata = \<lparr>sessionId = currentSessionId s,
                                               lastUpdated = Some (cycleDateNow env 0),
                                               version = Some (versionOf (currentMindmap s) + 1),
                                               totalTranscripts = Some (int (length ts)),
                                               error = None\<rparr>\<rparr>;
                                finalMindmap =
                                  summarizeOlderNodes (\<lambda>k. cycleDateNow env (Suc k)) newMindmap 200
                            in case saveMindmap (summaryRepository env) (jsonStringify env)
                                      (saveDateNow env) (currentSessionId s) finalMindmap of
                                 Inl err \<Rightarrow> catchBlock env err s
                               | Inr row \<Rightarrow>
                                   (s\<lparr>currentMindmap := finalMindmap, pendingTranscripts := []\<rparr>,
                                    Updated finalMindmap))))))"

text \<open>A run of cycles, one environment per cycle, and the runs in which every cycle succeeds.\<close>

definition isUpdated :: "cycle_outcome \<Rightarrow> bool" where
  "isUpdated r = (case r of Updated m \<Rightarrow> True | _ \<Rightarrow> False)"

definition isFailed :: "cycle_outcome \<Rightarrow> bool" where
  "isFailed r = (case r of Failed message \<Rightarrow> True | _ \<Rightarrow> False)"

fun runCycles :: "cycle_env list \<Rightarrow> service \<Rightarrow> service" where
  "runCycles [] s = s"
| "runCycles (env # envs) s = runCycles envs (fst (updateMindmap env s))"

fun allCyclesSucceed :: "cycle_env list \<Rightarrow> service \<Rightarrow> bool" where
  "allCyclesSucceed [] s = True"
| "allCyclesSucceed (env # envs) s =
     (isUpdated (snd (updateMindmap env s)) \<and> allCyclesSucceed envs (fst (updateMindmap env s)))"

section \<open>Transcript formatting (generateMindmapFromTranscripts, lines 459-485)\<close>

text \<open>
  \<open>new Date(v)\<close> is a valid date exactly when \<open>v\<close> is at most 8.64e15 milliseconds away
  from the epoch. \<open>toLocaleTimeString\<close> depends on the locale and the time zone and is an
  input. \<open>start_at\<close> is a whole number of seconds.
\<close>

definition validDate :: "int \<Rightarrow> bool" where
  "validDate ms = (\<bar>ms\<bar> \<le> 8640000000000000)"

definition formatTimestamp :: "(int \<Rightarrow> string) \<Rightarrow> nat \<Rightarrow> transcript \<Rightarrow> string" where
  "formatTimestamp toLocaleTimeString index t =
     (let fallback = ''['' @ showNat index @ '']''
      in case start_at t of
           None \<Rightarrow> fallback
         | Some s \<Rightarrow>
             if s = 0 then fallback
             else if validDate (s * 1000) then toLocaleTimeString (s * 1000)
             else if validDate s then toLocaleTimeString s
             else fallback)"

definition formatTranscript :: "(int \<Rightarrow> string) \<Rightarrow> nat \<Rightarrow> transcript \<Rightarrow> string" where
  "formatTranscript toLocaleTimeString index t =
     ''['' @ formatTimestamp toLocaleTimeString index t @ ''] ''
       @ orString (transcriptSpeaker t) ''unknown'' @ '': '' @ orString (transcriptText t) []"

text \<open>\<open>lines.join('\n')\<close>.\<close>

fun joinLines :: "string list \<Rightarrow> string" where
  "joinLines [] = []"
| "joinLines [l] = l"
| "joinLines (l # m # ls) = l @ [CHR 0x0A] @ joinLines (m # ls)"

definition formatTranscripts :: "(int \<Rightarrow> string) \<Rightarrow> transcript list \<Rightarrow> string" where
  "formatTranscripts toLocaleTimeString allTranscripts =
     joinLines (map (\<lambda>(index, t). formatTranscript toLocaleTimeString index t)
                    (zip [0 ..< length allTranscripts] allTranscripts))"

section \<open>Concrete inputs\<close>

definition exampleClock :: clock where
  "exampleClock k = 1700000000000 + int k"

definition exampleRandom :: rng where
  "exampleRandom k = ''k3j9x0a1b''"

definition exampleTime :: "int \<Rightarrow> string" where
  "exampleTime ms = ''10:15:00 AM''"

definition exampleStringify :: "mindmap \<Rightarrow> string" where
  "exampleStringify m = ''{}''"

definition topicNode :: "string \<Rightarrow> string \<Rightarrow> node" where
  "topicNode i l =
     \<lparr>nid = Some i, label = l, ntype = ''topic'', level = Some 1, color = Some ''#4A90E2'',
      nsize = Some 20, nodeMetadata = None, expandable = None\<rparr>"

definition plainEdge :: "string \<Rightarrow> string \<Rightarrow> edge" where
  "plainEdge a b =
     \<lparr>eid = Some (''edge-'' @ a @ ''-'' @ b), efrom = Some a, eto = Some b,
      etype = Some ''hierarchical'', ecolor = Some ''#888888''\<rparr>"

definition budgetGraph :: mindmap where
  "budgetGraph =
     \<lparr>nodes = [topicNode ''n1'' ''Budget''],
      edges = [],
      metadata = \<lparr>sessionId = Some ''s1'', lastUpdated = None, version = Some 1,
                  totalTranscripts = Some 4, error = None\<rparr>\<rparr>"

definition repeatedWordLabel :: string where
  "repeatedWordLabel = ''go go team''"

definition otherLabel :: string where
  "otherLabel = ''go home now''"

definition untimedTurn :: transcript where
  "untimedTurn =
     \<lparr>transcriptSpeaker = Some ''them'', transcriptText = Some ''hi'', start_at = None\<rparr>"

definition oneTurn :: transcript where
  "oneTurn =
     \<lparr>transcriptSpeaker = Some ''them'', transcriptText = Some ''hi'', start_at = Some 1000\<rparr>"

definition exampleRepository :: "summary option \<Rightarrow> repository" where
  "exampleRepository stored =
     \<lparr>getSummaryBySessionId = (\<lambda>sid. Inr stored), saveSummary = (\<lambda>row. None)\<rparr>"

definition storedRow :: summary where
  "storedRow =
     \<lparr>summarySessionId = Some ''s1'',
      mindmap_json = None,
      summaryText = Some ''Existing summary'',
      tldr = Some ''TLDR'',
      bullet_json = Some ''[]'',
      action_json = Some ''[]'',
      model = Some ''gpt-4'',
      generated_at = Some 1234567890,
      updated_at = Some 1234567890\<rparr>"

definition unnamedModelRow :: summary where
  "unnamedModelRow = storedRow\<lparr>model := Some []\<rparr>"

definition emptyReply :: payload where
  "emptyReply = \<lparr>payloadNodes = Some [], payloadEdges = Some []\<rparr>"

definition replyingEnv :: "payload \<Rightarrow> cycle_env" where
  "replyingEnv reply =
     \<lparr>getAllTranscriptsBySessionId = Inr (Some [oneTurn]),
      generateMindmapFromTranscripts = (\<lambda>k. Inr (Some reply)),
      summaryRepository = exampleRepository None,
      jsonStringify = exampleStringify,
      cycleDateNow = exampleClock,
      saveDateNow = 1700000000500,
      catchDateNow = 1700000006000\<rparr>"

definition failingEnv :: cycle_env where
  "failingEnv =
     \<lparr>getAllTranscriptsBySessionId = Inr (Some [oneTurn]),
      generateMindmapFromTranscripts = (\<lambda>k. Inl ''No JSON found in LLM response''),
      summaryRepository = exampleRepository None,
      jsonStringify = exampleStringify,
      cycleDateNow = exampleClock,
      saveDateNow = 1700000000500,
      catchDateNow = 1700000006000\<rparr>"

definition boundService :: "mindmap \<Rightarrow> transcript list \<Rightarrow> service" where
  "boundService m pending =
     \<lparr>currentMindmap = m, currentSessionId = Some ''s1'', pendingTranscripts = pending\<rparr>"

text \<open>The graph of a freshly bound session, and the graph a cycle makes of an empty reply.\<close>

definition initialGraph :: mindmap where
  "initialGraph =
     \<lparr>nodes = [], edges = [],
      metadata = \<lparr>sessionId = Some ''s1'', lastUpdated = None, version = Some 0,
                  totalTranscripts = Some 0, error = None\<rparr>\<rparr>"

definition replyGraph :: "int \<Rightarrow> mindmap" where
  "replyGraph v =
     \<lparr>nodes = [], edges = [],
      metadata = \<lparr>sessionId = Some ''s1'', lastUpdated = Some 1700000000000, version = Some v,
                  totalTranscripts = Some 1, error = None\<rparr>\<rparr>"

definition q4Delta :: updates where
  "q4Delta =
     \<lparr>newNodes = [topicNode ''n2'' ''Q4 Budget'', topicNode ''n3'' ''Marketing''],
      newEdges = [plainEdge ''n2'' ''n3'']\<rparr>"

definition linkDelta :: updates where
  "linkDelta = \<lparr>newNodes = [], newEdges = [plainEdge ''n1'' ''n1'']\<rparr>"

definition timedNode :: "string \<Rightarrow> string \<Rightarrow> int \<Rightarrow> node" where
  "timedNode i l t =
     (topicNode i l)\<lparr>nodeMetadata :=
        Some \<lparr>firstMentioned = Some t, speaker = None, transcriptIndices = Some [t],
              summarizedNodes = None\<rparr>\<rparr>"

definition threeTopicGraph :: mindmap where
  "threeTopicGraph =
     \<lparr>nodes = [timedNode ''n1'' ''Budget'' 3, timedNode ''n2'' ''Hiring'' 1,
               timedNode ''n3'' ''Legal'' 2],
      edges = [plainEdge ''n1'' ''n2'', plainEdge ''n2'' ''n3'', plainEdge ''n3'' ''n1''],
      metadata = \<lparr>sessionId = Some ''s1'', lastUpdated = None, version = Some 1,
                  totalTranscripts = Some 4, error = None\<rparr>\<rparr>"


section \<open>Properties of the JSON extraction\<close>

lemma braceLoop_stays_positive:
  "rbrace \<notin> set cs \<Longrightarrow> 1 \<le> b \<Longrightarrow> 1 \<le> fst (braceLoop cs i b e)"
  by (induction cs arbitrary: i b) (auto simp: Let_def)

lemma braceLoop_from_first_brace:
  assumes "rbrace \<notin> set cs"
  shows "fst (braceLoop (lbrace # cs) i 0 e) \<noteq> 0"
proof -
  have "lbrace \<noteq> rbrace" by (simp add: lbrace_def rbrace_def)
  then have "braceLoop (lbrace # cs) i 0 e = braceLoop cs (i + 1) 1 e"
    by (simp add: Let_def)
  moreover have "1 \<le> fst (braceLoop cs (i + 1) 1 e)"
    using assms by (rule braceLoop_stays_positive) simp
  ultimately show ?thesis by simp
qed

lemma drop_indexOf:
  assumes "indexOf s c = Some k"
  shows "drop k s = dropWhile (\<lambda>x. x \<noteq> c) s" and "dropWhile (\<lambda>x. x \<noteq> c) s \<noteq> []"
proof -
  from assms have k: "k = length (takeWhile (\<lambda>x. x \<noteq> c) s)" and mem: "c \<in> set s"
    by (auto simp: indexOf_def split: if_splits)
  show "drop k s = dropWhile (\<lambda>x. x \<noteq> c) s"
    unfolding k by (rule dropWhile_eq_drop [symmetric])
  show "dropWhile (\<lambda>x. x \<noteq> c) s \<noteq> []"
    using mem by (auto simp: dropWhile_eq_Nil_conv)
qed

lemma fallback_fails_when_greedy_fails:
  assumes "greedyMatch s = None"
  shows "braceFallback s = None"
proof (cases "indexOf s lbrace")
  case None
  then show ?thesis by (simp add: braceFallback_def)
next
  case (Some k)
  define t where "t = dropWhile (\<lambda>x. x \<noteq> lbrace) s"
  have dk: "drop k s = t" and tne: "t \<noteq> []"
    using drop_indexOf [OF Some] by (simp_all add: t_def)
  have "hd t = lbrace"
    using tne hd_dropWhile [of "\<lambda>x. x \<noteq> lbrace" s] by (auto simp: t_def)
  then have t: "t = lbrace # tl t" using tne by (cases t) auto
  have "rbrace \<notin> set (tl t)"
    using assms tne by (auto simp: greedyMatch_def Let_def t_def split: if_splits)
  then have "fst (braceLoop (lbrace # tl t) k 0 k) \<noteq> 0"
    by (rule braceLoop_from_first_brace)
  then have "fst (braceLoop (drop k s) k 0 k) \<noteq> 0"
    using dk t by simp
  then show ?thesis
    using Some by (auto simp: braceFallback_def split: prod.splits)
qed

text \<open>
  Claim C10. In the JSON-extraction step the brace-counting fallback never produces a
  result: for every response text, when the greedy \<open>{...}\<close> match fails the scan from the
  first brace fails too, so the two-stage extraction returns exactly what the greedy match
  alone returns, and it succeeds if and only if the greedy match succeeds.
\<close>

theorem C10_brace_fallback_is_dead:
  "(greedyMatch s = None \<longrightarrow> braceFallback s = None)
   \<and> extractJson s = extractJsonGreedyOnly s
   \<and> ((\<exists>m. extractJson s = Inr m) \<longleftrightarrow> (\<exists>m. greedyMatch s = Some m))"
proof -
  have a: "greedyMatch s = None \<longrightarrow> braceFallback s = None"
    using fallback_fails_when_greedy_fails by blast
  have b: "extractJson s = extractJsonGreedyOnly s"
    using a by (cases "greedyMatch s") (simp_all add: extractJson_def extractJsonGreedyOnly_def)
  have c: "(\<exists>m. extractJson s = Inr m) \<longleftrightarrow> (\<exists>m. greedyMatch s = Some m)"
    unfolding b by (cases "greedyMatch s") (simp_all add: extractJsonGreedyOnly_def)
  from a b c show ?thesis by blast
qed

theorem C10_brace_fallback_is_dead_witness:
  "greedyMatch ''Sure: {nodes'' = None \<and> braceFallback ''Sure: {nodes'' = None
   \<and> extractJson ''Sure: {nodes'' = Inl (NoJsonFound ''Sure: {nodes'')"
proof -
  have g: "greedyMatch ''Sure: {nodes'' = None"
    by (simp add: greedyMatch_def lbrace_def rbrace_def)
  have e: "extractJsonGreedyOnly ''Sure: {nodes'' = Inl (NoJsonFound ''Sure: {nodes'')"
    by (simp add: extractJsonGreedyOnly_def g substring_def)
  show ?thesis
    using C10_brace_fallback_is_dead [of "''Sure: {nodes''"] g e by simp
qed

section \<open>Properties of nodesSimilar\<close>

lemmas similar_eval =
  nodesSimilar_def trim_def toLowerCase_def toLowerChar_def isWhiteSpace_def
  splitWhitespace_def

lemma similar_budget_q4: "nodesSimilar ''Budget'' ''Q4 Budget''"
  by (simp add: similar_eval)

lemma not_similar_budget_marketing: "\<not> nodesSimilar ''Budget'' ''Marketing''"
  by (simp add: similar_eval)

text \<open>
  Claim C5. The similarity predicate should not depend on the order of its arguments. The
  code counts the words of the first label that occur in the second, with their
  repetitions, so a label that repeats a word is similar to another label in one order and
  not in the other: \<open>go go team\<close> has two of its three words in \<open>go home now\<close>, which has one
  of its three words in \<open>go go team\<close>.
\<close>

theorem C5_similarity_depends_on_argument_order:
  "nodesSimilar repeatedWordLabel otherLabel = True
   \<and> nodesSimilar otherLabel repeatedWordLabel = False"
  by (simp add: similar_eval repeatedWordLabel_def otherLabel_def)

section \<open>Properties of summarizeOlderNodes and mergeMindmapUpdates\<close>

text \<open>
  Claim C6. For every graph whose number of nodes is at most \<open>maxNodes\<close>, summarization
  returns the graph itself: nodes, edges and metadata are unchanged.
\<close>

theorem C6_summarize_is_identity_within_bound:
  "int (length (nodes m)) \<le> maxNodes \<Longrightarrow> summarizeOlderNodes clk m maxNodes = m"
  by (simp add: summarizeOlderNodes_def)

theorem C6_summarize_is_identity_within_bound_witness:
  "int (length (nodes threeTopicGraph)) \<le> 3
   \<and> summarizeOlderNodes exampleClock threeTopicGraph 3 = threeTopicGraph"
proof -
  have h: "int (length (nodes threeTopicGraph)) \<le> 3" by (simp add: threeTopicGraph_def)
  show ?thesis
    using h C6_summarize_is_identity_within_bound [OF h, of exampleClock] by simp
qed

text \<open>
  Claim C7. Merging the empty delta into any graph leaves its nodes and its edges exactly
  as they are, sets \<open>metadata.version\<close> to the old version plus one and
  \<open>metadata.lastUpdated\<close> to the time of the merge, and changes no other field of the
  metadata.
\<close>

theorem C7_merge_of_empty_delta:
  "nodes (mergeMindmapUpdates clk rnd g \<lparr>newNodes = [], newEdges = []\<rparr>) = nodes g
   \<and> edges (mergeMindmapUpdates clk rnd g \<lparr>newNodes = [], newEdges = []\<rparr>) = edges g
   \<and> metadata (mergeMindmapUpdates clk rnd g \<lparr>newNodes = [], newEdges = []\<rparr>)
       = (metadata g)\<lparr>version := Some (versionOf g + 1), lastUpdated := Some (clk 0)\<rparr>
   \<and> sessionId (metadata (mergeMindmapUpdates clk rnd g \<lparr>newNodes = [], newEdges = []\<rparr>))
       = sessionId (metadata g)
   \<and> totalTranscripts (metadata (mergeMindmapUpdates clk rnd g \<lparr>newNodes = [], newEdges = []\<rparr>))
       = totalTranscripts (metadata g)
   \<and> error (metadata (mergeMindmapUpdates clk rnd g \<lparr>newNodes = [], newEdges = []\<rparr>))
       = error (metadata g)"
  by (simp add: mergeMindmapUpdates_def)

theorem C7_merge_of_empty_delta_witness:
  "mergeMindmapUpdates exampleClock exampleRandom budgetGraph \<lparr>newNodes = [], newEdges = []\<rparr> =
     \<lparr>nodes = [topicNode ''n1'' ''Budget''],
      edges = [],
      metadata = \<lparr>sessionId = Some ''s1'', lastUpdated = Some 1700000000000, version = Some 2,
                  totalTranscripts = Some 4, error = None\<rparr>\<rparr>"
proof -
  have "nodes budgetGraph = [topicNode ''n1'' ''Budget'']" "edges budgetGraph = []"
    "versionOf budgetGraph = 1" "exampleClock 0 = 1700000000000"
    "metadata budgetGraph = \<lparr>sessionId = Some ''s1'', lastUpdated = None, version = Some 1,
                  totalTranscripts = Some 4, error = None\<rparr>"
    by (simp_all add: budgetGraph_def versionOf_def exampleClock_def)
  then show ?thesis
    using C7_merge_of_empty_delta [of exampleClock exampleRandom budgetGraph]
    by (cases "mergeMindmapUpdates exampleClock exampleRandom budgetGraph
                 \<lparr>newNodes = [], newEdges = []\<rparr>") simp
qed

section \<open>Properties of the transcript formatting\<close>

lemma formatTranscript_parsed:
  assumes "start_at t = Some s" "s \<noteq> 0" "validDate (s * 1000) \<or> validDate s"
  shows "\<exists>ms. formatTranscript toLocale index t =
     ''['' @ toLocale ms @ ''] '' @ orString (transcriptSpeaker t) ''unknown'' @ '': ''
       @ orString (transcriptText t) []"
  using assms by (auto simp: formatTranscript_def formatTimestamp_def)

text \<open>
  Claim C9. A turn whose timestamp is missing or cannot be read as a date should be
  written with the positional index \<open>[n]\<close> in front. The fallback value of the timestamp
  already carries the brackets and the line template adds its own, so the line of the turn
  at index 0 with no \<open>start_at\<close> starts with \<open>[[0]]\<close>; the same happens at index 1 for a
  \<open>start_at\<close> too large to be a date in seconds or in milliseconds.
\<close>

theorem C9_fallback_prefix_has_double_brackets:
  "formatTranscript exampleTime 0 untimedTurn = ''[[0]] them: hi''
   \<and> formatTranscript exampleTime 1 (untimedTurn\<lparr>start_at := Some 10000000000000000\<rparr>)
       = ''[[1]] them: hi''"
  by (simp add: formatTranscript_def formatTimestamp_def untimedTurn_def orString_def
      showNat.simps validDate_def)

section \<open>Properties of saveMindmap\<close>

lemma orString_truthy: "truthyString x \<Longrightarrow> Some (orString x d) = x"
  by (auto simp: truthyString_def orString_def split: option.splits)

lemma orString_falsy: "\<not> truthyString x \<Longrightarrow> orString x d = d"
  by (auto simp: truthyString_def orString_def split: option.splits)

lemma orNumber_truthy: "truthyNumber x \<Longrightarrow> Some (orNumber x d) = x"
  by (auto simp: truthyNumber_def orNumber_def split: option.splits)

lemma orNumber_falsy: "\<not> truthyNumber x \<Longrightarrow> orNumber x d = d"
  by (auto simp: truthyNumber_def orNumber_def split: option.splits)

text \<open>
  Claim C8, as stated, fails: the save does not write every other field of the existing row
  back verbatim. A row whose \<open>model\<close> is the empty string is written back with the model
  \<open>unknown\<close>, and \<open>updated_at\<close> is overwritten with the time of the save.
\<close>

theorem C8_save_changes_other_fields:
  "saveMindmap (exampleRepository (Some unnamedModelRow)) exampleStringify 1700000000000
       (Some ''s1'') budgetGraph
     = Inr \<lparr>summarySessionId = Some ''s1'',
            mindmap_json = Some ''{}'',
            summaryText = Some ''Existing summary'',
            tldr = Some ''TLDR'',
            bullet_json = Some ''[]'',
            action_json = Some ''[]'',
            model = Some ''unknown'',
            generated_at = Some 1234567890,
            updated_at = Some 1700000000\<rparr>
   \<and> model unnamedModelRow = Some []
   \<and> updated_at unnamedModelRow = Some 1234567890"
  by (simp add: saveMindmap_def exampleRepository_def unnamedModelRow_def storedRow_def
      exampleStringify_def orString_def orNumber_def)

text \<open>
  Claim C8, amended. When the session is bound, the read succeeds and the write does not
  throw, \<open>saveMindmap\<close> writes one row. Its \<open>mindmap_json\<close> is the JSON string of the graph and
  its \<open>updated_at\<close> is the time of the save in seconds. When a row exists, each of \<open>text\<close>,
  \<open>tldr\<close>, \<open>bullet_json\<close>, \<open>action_json\<close>, \<open>model\<close> and \<open>generated_at\<close> is written back
  unchanged if its value is truthy (a non-empty string, a non-zero number), and replaced by
  its default (the empty string, \<open>unknown\<close>, the time of the save) otherwise. When no row
  exists, the row written has the default in every one of these fields.
\<close>

theorem C8_save_read_modify_write:
  assumes sid: "sid \<noteq> []"
    and rd: "getSummaryBySessionId repo sid = Inr existingSummary"
    and wr: "\<forall>row. saveSummary repo row = None"
  shows "\<exists>row. saveMindmap repo stringify nowMs (Some sid) m = Inr row
     \<and> mindmap_json row = Some (stringify m)
     \<and> updated_at row = Some (nowMs div 1000)
     \<and> summarySessionId row = Some sid
     \<and> (\<forall>existing. existingSummary = Some existing \<longrightarrow>
           (if truthyString (summaryText existing) then summaryText row = summaryText existing
            else summaryText row = Some [])
         \<and> (if truthyString (tldr existing) then tldr row = tldr existing
            else tldr row = Some [])
         \<and> (if truthyString (bullet_json existing) then bullet_json row = bullet_json existing
            else bullet_json row = Some [])
         \<and> (if truthyString (action_json existing) then action_json row = action_json existing
            else action_json row = Some [])
         \<and> (if truthyString (model existing) then model row = model existing
            else model row = Some ''unknown'')
         \<and> (if truthyNumber (generated_at existing) then generated_at row = generated_at existing
            else generated_at row = Some (nowMs div 1000)))
     \<and> (existingSummary = None \<longrightarrow>
           row = \<lparr>summarySessionId = Some sid,
                  mindmap_json = Some (stringify m),
                  summaryText = Some [],
                  tldr = Some [],
                  bullet_json = Some [],
                  action_json = Some [],
                  model = Some ''unknown'',
                  generated_at = Some (nowMs div 1000),
                  updated_at = Some (nowMs div 1000)\<rparr>)"
proof (cases existingSummary)
  case None
  then show ?thesis
    using sid rd wr by (simp add: saveMindmap_def Let_def)
next
  case (Some existing)
  then show ?thesis
    using sid rd wr
    by (simp add: saveMindmap_def Let_def orString_truthy orString_falsy orNumber_truthy
        orNumber_falsy)
qed

theorem C8_save_read_modify_write_witness:
  "saveMindmap (exampleRepository (Some storedRow)) exampleStringify 1700000000000
       (Some ''s1'') budgetGraph
     = Inr (storedRow\<lparr>mindmap_json := Some ''{}'', updated_at := Some 1700000000\<rparr>)"
proof -
  have sid: "''s1'' \<noteq> []" by simp
  have rd: "getSummaryBySessionId (exampleRepository (Some storedRow)) ''s1''
              = Inr (Some storedRow)"
    by (simp add: exampleRepository_def)
  have wr: "\<forall>row. saveSummary (exampleRepository (Some storedRow)) row = None"
    by (simp add: exampleRepository_def)
  have t: "truthyString (summaryText storedRow)" "truthyString (tldr storedRow)"
    "truthyString (bullet_json storedRow)" "truthyString (action_json storedRow)"
    "truthyString (model storedRow)" "truthyNumber (generated_at storedRow)"
    by (simp_all add: storedRow_def truthyString_def truthyNumber_def)
  from C8_save_read_modify_write [OF sid rd wr, of exampleStringify 1700000000000 budgetGraph]
  obtain row where r: "saveMindmap (exampleRepository (Some storedRow)) exampleStringify
        1700000000000 (Some ''s1'') budgetGraph = Inr row"
    and f: "mindmap_json row = Some (exampleStringify budgetGraph)"
      "updated_at row = Some (1700000000000 div 1000)"
      "summarySessionId row = Some ''s1''"
      "summaryText row = summaryText storedRow" "tldr row = tldr storedRow"
      "bullet_json row = bullet_json storedRow" "action_json row = action_json storedRow"
      "model row = model storedRow" "generated_at row = generated_at storedRow"
    using t by auto
  have "row = storedRow\<lparr>mindmap_json := Some ''{}'', updated_at := Some 1700000000\<rparr>"
    using f by (cases row) (simp add: storedRow_def exampleStringify_def)
  with r show ?thesis by simp
qed

section \<open>Properties of the update cycle\<close>

lemma snd_catchBlock [simp]: "snd (catchBlock env message s) = Failed message"
  by (simp add: catchBlock_def)

lemma summarize_metadata [simp]:
  "metadata (summarizeOlderNodes clk m maxNodes) = metadata m"
  by (simp add: summarizeOlderNodes_def Let_def)

text \<open>
  A cycle ends in one of three ways: it is skipped and changes nothing, it goes through the
  \<open>catch\<close> block, or it stores a graph whose version is the old version plus one.
\<close>

lemma updateMindmap_cases:
  "updateMindmap env s = (s, Skipped)
   \<or> (\<exists>message. updateMindmap env s = catchBlock env message s)
   \<or> (\<exists>finalMindmap.
         updateMindmap env s
           = (s\<lparr>currentMindmap := finalMindmap, pendingTranscripts := []\<rparr>, Updated finalMindmap)
         \<and> version (metadata finalMindmap) = Some (versionOf (currentMindmap s) + 1))"
proof (cases "truthyString (currentSessionId s)")
  case False
  then show ?thesis by (simp add: updateMindmap_def)
next
  case session: True
  show ?thesis
  proof (cases "getAllTranscriptsBySessionId env")
    case (Inl err)
    then have "updateMindmap env s = catchBlock env err s"
      using session by (simp add: updateMindmap_def)
    then show ?thesis by blast
  next
    case (Inr allTranscripts)
    show ?thesis
    proof (cases allTranscripts)
      case None
      then show ?thesis using session Inr by (simp add: updateMindmap_def)
    next
      case (Some ts)
      show ?thesis
      proof (cases "length ts = 0")
        case True
        then show ?thesis using session Inr Some by (simp add: updateMindmap_def)
      next
        case nonempty: False
        obtain mindmapData lastError where
          loop: "retryLoop (generateMindmapFromTranscripts env) 0 2 None None
                   = (mindmapData, lastError)"
          by (cases "retryLoop (generateMindmapFromTranscripts env) 0 2 None None")
        show ?thesis
        proof (cases "payloadOk mindmapData")
          case False
          then have "updateMindmap env s
              = catchBlock env (case lastError of
                                  Some err \<Rightarrow> err
                                | None \<Rightarrow> ''Failed to generate mindmap after retries'') s"
            using session Inr Some nonempty loop by (simp add: updateMindmap_def)
          then show ?thesis by blast
        next
          case True
          then show ?thesis
            using session Inr Some nonempty loop
            by (simp add: updateMindmap_def Let_def split: sum.splits) blast
        qed
      qed
    qed
  qed
qed

lemma failed_cycle_is_catchBlock:
  assumes "snd (updateMindmap env s) = Failed message"
  shows "updateMindmap env s = catchBlock env message s"
proof -
  from updateMindmap_cases [of env s] assms
  obtain msg where m: "updateMindmap env s = catchBlock env msg s"
    by auto
  with assms have "msg = message" by simp
  with m show ?thesis by simp
qed

lemma updated_cycle_version:
  assumes "snd (updateMindmap env s) = Updated m"
  shows "versionOf (currentMindmap (fst (updateMindmap env s)))
           = versionOf (currentMindmap s) + 1"
  using updateMindmap_cases [of env s] assms
  by (auto simp: versionOf_def)

lemma skipped_cycle_unchanged:
  assumes "snd (updateMindmap env s) = Skipped"
  shows "fst (updateMindmap env s) = s"
  using updateMindmap_cases [of env s] assms by auto

lemma all_succeed_version:
  "allCyclesSucceed envs s \<Longrightarrow>
     versionOf (currentMindmap (runCycles envs s))
       = versionOf (currentMindmap s) + int (length envs)"
proof (induction envs arbitrary: s)
  case Nil
  then show ?case by simp
next
  case (Cons env envs)
  from Cons.prems obtain m where u: "snd (updateMindmap env s) = Updated m"
    and rest: "allCyclesSucceed envs (fst (updateMindmap env s))"
    by (auto simp: isUpdated_def split: cycle_outcome.splits)
  show ?case
    using Cons.IH [OF rest] updated_cycle_version [OF u] by simp
qed

lemma merge_version:
  "versionOf (mergeMindmapUpdates clk rnd g d) = versionOf g + 1"
  by (simp add: mergeMindmapUpdates_def versionOf_def split: prod.splits)

lemma merges_version:
  "versionOf (foldl (mergeMindmapUpdates clk rnd) g ds) = versionOf g + int (length ds)"
  by (induction ds arbitrary: g) (simp_all add: merge_version)



text \<open>The two concrete cycles: every attempt throws; the generator replies with no nodes.\<close>

lemma failing_run:
  "updateMindmap failingEnv (boundService g pending)
     = catchBlock failingEnv ''No JSON found in LLM response'' (boundService g pending)"
  by (simp add: updateMindmap_def failingEnv_def boundService_def truthyString_def
      retryLoop.simps payloadOk_def oneTurn_def)

lemma replying_run:
  "updateMindmap (replyingEnv emptyReply) (boundService g pending)
     = (boundService (replyGraph (versionOf g + 1)) [], Updated (replyGraph (versionOf g + 1)))"
  by (simp add: updateMindmap_def replyingEnv_def boundService_def truthyString_def
      retryLoop.simps payloadOk_def emptyReply_def summarizeOlderNodes_def saveMindmap_def
      exampleRepository_def Let_def exampleClock_def replyGraph_def oneTurn_def)

lemma versionOf_replyGraph [simp]: "versionOf (replyGraph v) = v"
  by (simp add: versionOf_def replyGraph_def)

lemma versionOf_initialGraph [simp]: "versionOf initialGraph = 0"
  by (simp add: versionOf_def initialGraph_def)

text \<open>
  Claim C2, as stated, fails: a failed cycle can lower the version. From the graph of a
  freshly bound session, a first cycle whose reply has no nodes succeeds and stores
  version 1; a second cycle in which all three attempts throw finds no node in the current
  graph and replaces it by an empty graph of version 0.
\<close>

theorem C2_failed_cycle_resets_version:
  "updateMindmap (replyingEnv emptyReply) (boundService initialGraph [oneTurn])
     = (boundService (replyGraph 1) [], Updated (replyGraph 1))
   \<and> versionOf (replyGraph 1) = 1
   \<and> isFailed (snd (updateMindmap failingEnv (boundService (replyGraph 1) [])))
   \<and> versionOf (currentMindmap (fst (updateMindmap failingEnv (boundService (replyGraph 1) []))))
       = 0"
proof -
  have a: "updateMindmap (replyingEnv emptyReply) (boundService initialGraph [oneTurn])
     = (boundService (replyGraph 1) [], Updated (replyGraph 1))"
    using replying_run [of initialGraph "[oneTurn]"] by simp
  have b: "isFailed (snd (updateMindmap failingEnv (boundService (replyGraph 1) [])))"
    by (simp add: failing_run isFailed_def)
  have c: "versionOf (currentMindmap
             (fst (updateMindmap failingEnv (boundService (replyGraph 1) [])))) = 0"
    unfolding failing_run
    by (simp add: catchBlock_def boundService_def replyGraph_def versionOf_def)
  from a b c show ?thesis by simp
qed

text \<open>
  Claim C2, amended. A successful cycle stores the old version plus one, so after \<open>N\<close>
  successful cycles from version \<open>v\<close> the version is \<open>v + N\<close>; every call of the merge
  returns the old version plus one, so \<open>N\<close> merges give \<open>v + N\<close>; a skipped cycle changes
  nothing. A failed cycle leaves the service, and so the version, unchanged when the current
  graph has at least one node; when the current graph has no node it stores an empty graph
  of version 0.
\<close>

theorem C2_version_steps:
  "(snd (updateMindmap env s) = Updated m \<longrightarrow>
      versionOf (currentMindmap (fst (updateMindmap env s))) = versionOf (currentMindmap s) + 1)
   \<and> (allCyclesSucceed envs s \<longrightarrow>
        versionOf (currentMindmap (runCycles envs s))
          = versionOf (currentMindmap s) + int (length envs))
   \<and> versionOf (mergeMindmapUpdates clk rnd g d) = versionOf g + 1
   \<and> versionOf (foldl (mergeMindmapUpdates clk rnd) g ds) = versionOf g + int (length ds)
   \<and> (snd (updateMindmap env s) = Skipped \<longrightarrow> fst (updateMindmap env s) = s)
   \<and> (snd (updateMindmap env s) = Failed message \<and> nodes (currentMindmap s) \<noteq> [] \<longrightarrow>
        fst (updateMindmap env s) = s)
   \<and> (snd (updateMindmap env s) = Failed message \<and> nodes (currentMindmap s) = [] \<longrightarrow>
        version (metadata (currentMindmap (fst (updateMindmap env s)))) = Some 0)"
proof -
  have f1: "fst (updateMindmap env s) = s"
    if "snd (updateMindmap env s) = Failed message" "nodes (currentMindmap s) \<noteq> []"
    using failed_cycle_is_catchBlock [OF that(1)] that(2) by (simp add: catchBlock_def)
  have f2: "version (metadata (currentMindmap (fst (updateMindmap env s)))) = Some 0"
    if "snd (updateMindmap env s) = Failed message" "nodes (currentMindmap s) = []"
    using failed_cycle_is_catchBlock [OF that(1)] that(2) by (simp add: catchBlock_def)
  show ?thesis
    using updated_cycle_version [of env s m] all_succeed_version [of envs s]
      merge_version [of clk rnd g d] merges_version [of clk rnd g ds]
      skipped_cycle_unchanged [of env s] f1 f2
    by blast
qed

theorem C2_version_steps_witness:
  "versionOf (currentMindmap (fst (updateMindmap (replyingEnv emptyReply)
       (boundService initialGraph [oneTurn])))) = 1
   \<and> versionOf (currentMindmap (runCycles [replyingEnv emptyReply, replyingEnv emptyReply]
       (boundService initialGraph [oneTurn]))) = 2
   \<and> fst (updateMindmap failingEnv (boundService budgetGraph [oneTurn]))
       = boundService budgetGraph [oneTurn]"
proof -
  have u: "snd (updateMindmap (replyingEnv emptyReply) (boundService initialGraph [oneTurn]))
             = Updated (replyGraph 1)"
    using replying_run [of initialGraph "[oneTurn]"] by simp
  have a: "allCyclesSucceed [replyingEnv emptyReply, replyingEnv emptyReply]
             (boundService initialGraph [oneTurn])"
    by (simp add: replying_run isUpdated_def)
  have f: "snd (updateMindmap failingEnv (boundService budgetGraph [oneTurn]))
             = Failed ''No JSON found in LLM response''
           \<and> nodes (currentMindmap (boundService budgetGraph [oneTurn])) \<noteq> []"
    unfolding failing_run by (simp add: boundService_def budgetGraph_def)
  have v: "versionOf (currentMindmap (boundService initialGraph [oneTurn])) = 0"
    by (simp add: boundService_def)
  from C2_version_steps [of "replyingEnv emptyReply" "boundService initialGraph [oneTurn]"
      "replyGraph 1" "[replyingEnv emptyReply, replyingEnv emptyReply]"] u a v
  have x: "versionOf (currentMindmap (fst (updateMindmap (replyingEnv emptyReply)
       (boundService initialGraph [oneTurn])))) = 1"
    and y: "versionOf (currentMindmap (runCycles [replyingEnv emptyReply, replyingEnv emptyReply]
       (boundService initialGraph [oneTurn]))) = 2"
    by simp_all
  from C2_version_steps [of failingEnv "boundService budgetGraph [oneTurn]" _ _ _ _ _ _ _
      "''No JSON found in LLM response''"] f
  have z: "fst (updateMindmap failingEnv (boundService budgetGraph [oneTurn]))
       = boundService budgetGraph [oneTurn]"
    by blast
  from x y z show ?thesis by simp
qed



section \<open>No dangling edges\<close>

lemma merge_q4:
  "mergeMindmapUpdates exampleClock exampleRandom budgetGraph q4Delta =
     \<lparr>nodes = [topicNode ''n1'' ''Budget'', topicNode ''n3'' ''Marketing''],
      edges = [plainEdge ''n2'' ''n3''],
      metadata = \<lparr>sessionId = Some ''s1'', lastUpdated = Some 1700000000000, version = Some 2,
                  totalTranscripts = Some 4, error = None\<rparr>\<rparr>"
  by (simp add: mergeMindmapUpdates_def mergeNode_def mergeEdge_def budgetGraph_def q4Delta_def
      topicNode_def plainEdge_def similar_budget_q4 not_similar_budget_marketing
      idOrGenerated_def incomingIndices_def
      truthyString_def versionOf_def exampleClock_def)

text \<open>
  Claim C1, as stated, fails for the merge. The graph with the single node \<open>n1\<close> labelled
  \<open>Budget\<close> has unique ids and no dangling edge. The delta brings the nodes \<open>n2\<close>
  (\<open>Q4 Budget\<close>) and \<open>n3\<close> (\<open>Marketing\<close>) and the edge from \<open>n2\<close> to \<open>n3\<close>. The node
  \<open>n2\<close> is merged into \<open>n1\<close>, the edge is appended as it is, and it points at \<open>n2\<close>, which
  is no node of the result.
\<close>

theorem C1_merge_leaves_dangling_edge:
  "noDanglingEdges budgetGraph
   \<and> distinct (map nid (nodes budgetGraph))
   \<and> \<not> noDanglingEdges (mergeMindmapUpdates exampleClock exampleRandom budgetGraph q4Delta)"
  unfolding merge_q4
  by (simp add: noDanglingEdges_def budgetGraph_def topicNode_def plainEdge_def)

subsection \<open>Summarization\<close>

lemma find_Some_in_set: "find P xs = Some x \<Longrightarrow> x \<in> set xs"
  by (induction xs) (auto split: if_splits)

lemma updateEdge_endpoints:
  assumes "e' \<in> set (updateEdge oldNodes summaryNodes e)"
  shows "(efrom e' \<in> set (map nid summaryNodes)
            \<or> (efrom e' = efrom e \<and> efrom e \<notin> set (map nid oldNodes)))
       \<and> (eto e' \<in> set (map nid summaryNodes)
            \<or> (eto e' = eto e \<and> eto e \<notin> set (map nid oldNodes)))"
  using assms
  by (auto simp: updateEdge_def Let_def split: if_splits option.splits
      dest: find_Some_in_set [OF sym])

lemma updateEdge_unresolved:
  assumes "(efrom e \<in> set (map nid oldNodes) \<and> (\<forall>s \<in> set summaryNodes. \<not> summarizes (efrom e) s))
         \<or> (eto e \<in> set (map nid oldNodes) \<and> (\<forall>s \<in> set summaryNodes. \<not> summarizes (eto e) s))"
  shows "updateEdge oldNodes summaryNodes e = []"
proof -
  have "find (summarizes x) summaryNodes = None"
    if "\<forall>s \<in> set summaryNodes. \<not> summarizes x s" for x
    using that by (simp add: find_None_iff)
  then show ?thesis
    using assms by (auto simp: updateEdge_def Let_def)
qed

lemma updateEdges_endpoints:
  assumes "e' \<in> set (updateEdgesForSummaries es oldNodes summaryNodes)"
  shows "\<exists>e \<in> set es.
          (efrom e' \<in> set (map nid summaryNodes)
             \<or> (efrom e' = efrom e \<and> efrom e \<notin> set (map nid oldNodes)))
        \<and> (eto e' \<in> set (map nid summaryNodes)
             \<or> (eto e' = eto e \<and> eto e \<notin> set (map nid oldNodes)))"
  using assms updateEdge_endpoints
  unfolding updateEdgesForSummaries_def by fastforce

lemma slice_recent:
  assumes "m < int (length xs)"
  shows "slice xs (- m) (int (length xs)) = drop (relativeIndex (length xs) (- m)) xs"
  by (simp add: slice_def relativeIndex_def Let_def)

lemma slice_older:
  assumes "m < int (length xs)"
  shows "slice xs 0 (int (length xs) - m) = take (relativeIndex (length xs) (int (length xs) - m)) xs"
  by (simp add: slice_def relativeIndex_def Let_def)

lemma slices_cover:
  assumes "m < int (length xs)"
  shows "set xs \<subseteq> set (slice xs (- m) (int (length xs))) \<union> set (slice xs 0 (int (length xs) - m))"
proof -
  let ?s = "relativeIndex (length xs) (- m)"
  let ?e = "relativeIndex (length xs) (int (length xs) - m)"
  have le: "?s \<le> ?e"
    using assms by (auto simp: relativeIndex_def)
  have "set xs = set (take ?e xs) \<union> set (drop ?e xs)"
    by (metis append_take_drop_id set_append)
  moreover have "set (drop ?e xs) \<subseteq> set (drop ?s xs)"
    using le by (metis set_drop_subset_set_drop)
  ultimately show ?thesis
    unfolding slice_recent [OF assms] slice_older [OF assms] by blast
qed

lemma summarize_no_dangling:
  assumes "noDanglingEdges m"
  shows "noDanglingEdges (summarizeOlderNodes clk m maxNodes)"
proof (cases "int (length (nodes m)) \<le> maxNodes")
  case True
  then show ?thesis using assms by (simp add: summarizeOlderNodes_def)
next
  case False
  define sortedNodes where "sortedNodes = sort_key firstMentionedOf (nodes m)"
  define recentNodes where "recentNodes = slice sortedNodes (- maxNodes) (int (length sortedNodes))"
  define olderNodes where "olderNodes = slice sortedNodes 0 (int (length sortedNodes) - maxNodes)"
  define summaryNodes where "summaryNodes = createSummaryNodes clk olderNodes"
  have res: "summarizeOlderNodes clk m maxNodes =
      \<lparr>nodes = recentNodes @ summaryNodes,
       edges = updateEdgesForSummaries (edges m) olderNodes summaryNodes,
       metadata = metadata m\<rparr>"
    using False
    by (simp add: summarizeOlderNodes_def Let_def sortedNodes_def recentNodes_def olderNodes_def
        summaryNodes_def)
  have len: "maxNodes < int (length sortedNodes)"
    using False by (simp add: sortedNodes_def)
  have cover: "set (nodes m) \<subseteq> set recentNodes \<union> set olderNodes"
    using slices_cover [OF len] by (simp add: recentNodes_def olderNodes_def sortedNodes_def)
  have keep: "x \<in> set (map nid (recentNodes @ summaryNodes))"
    if "x \<in> set (map nid summaryNodes)
        \<or> (x \<in> set (map nid (nodes m)) \<and> x \<notin> set (map nid olderNodes))" for x
    using that cover by auto
  show ?thesis
    unfolding res noDanglingEdges_def
  proof (intro ballI)
    fix e' assume "e' \<in> set (edges \<lparr>nodes = recentNodes @ summaryNodes,
       edges = updateEdgesForSummaries (edges m) olderNodes summaryNodes,
       metadata = metadata m\<rparr>)"
    then have "e' \<in> set (updateEdgesForSummaries (edges m) olderNodes summaryNodes)" by simp
    from updateEdges_endpoints [OF this] obtain e where e: "e \<in> set (edges m)"
      and f: "efrom e' \<in> set (map nid summaryNodes)
             \<or> (efrom e' = efrom e \<and> efrom e \<notin> set (map nid olderNodes))"
      and t: "eto e' \<in> set (map nid summaryNodes)
             \<or> (eto e' = eto e \<and> eto e \<notin> set (map nid olderNodes))"
      by blast
    from assms e have "efrom e \<in> set (map nid (nodes m))" "eto e \<in> set (map nid (nodes m))"
      by (auto simp: noDanglingEdges_def)
    with f t have "efrom e' \<in> set (map nid (recentNodes @ summaryNodes))"
      "eto e' \<in> set (map nid (recentNodes @ summaryNodes))"
      using keep by metis+
    then show "efrom e' \<in> set (map nid (nodes \<lparr>nodes = recentNodes @ summaryNodes,
       edges = updateEdgesForSummaries (edges m) olderNodes summaryNodes,
       metadata = metadata m\<rparr>)) \<and>
          eto e' \<in> set (map nid (nodes \<lparr>nodes = recentNodes @ summaryNodes,
       edges = updateEdgesForSummaries (edges m) olderNodes summaryNodes,
       metadata = metadata m\<rparr>))" by simp
  qed
qed

subsection \<open>Merge\<close>

lemma nid_absorbIndices [simp]: "nid (absorbIndices n xs) = nid n"
  by (simp add: absorbIndices_def Let_def)

lemma findIndex_less: "findIndex P xs = Some i \<Longrightarrow> i < length xs"
  by (induction xs arbitrary: i) (auto split: if_splits)

lemma mergeNode_ids:
  "set (map nid (fst st)) \<subseteq> set (map nid (fst (mergeNode clk rnd st n)))"
proof -
  obtain ns k where st: "st = (ns, k)" by (cases st)
  have "map nid (ns[i := absorbIndices (ns ! i) xs]) = map nid ns" if "i < length ns" for i xs
    using that by (simp add: map_update list_update_same_conv)
  then have upd: "nid ` set (ns[i := absorbIndices (ns ! i) xs]) = nid ` set ns"
    if "i < length ns" for i xs
    using that by (metis set_map)
  show ?thesis
    unfolding st
    by (auto simp: mergeNode_def upd findIndex_less idOrGenerated_def split: option.splits)
qed

lemma foldl_mergeNode_ids:
  "set (map nid (fst st)) \<subseteq> set (map nid (fst (foldl (mergeNode clk rnd) st ds)))"
proof (induction ds arbitrary: st)
  case Nil
  then show ?case by simp
next
  case (Cons d ds)
  show ?case
    using mergeNode_ids [of st clk rnd d] Cons.IH [of "mergeNode clk rnd st d"] by auto
qed

lemma mergeEdge_edges:
  assumes "e \<in> set (fst (mergeEdge clk rnd st new))"
  shows "e \<in> set (fst st) \<or> (efrom e = efrom new \<and> eto e = eto new)"
  using assms
  by (cases st) (auto simp: mergeEdge_def split: option.splits if_splits)

lemma foldl_mergeEdge_edges:
  assumes "e \<in> set (fst (foldl (mergeEdge clk rnd) st news))"
  shows "e \<in> set (fst st) \<or> (\<exists>new \<in> set news. efrom e = efrom new \<and> eto e = eto new)"
  using assms
proof (induction news arbitrary: st)
  case Nil
  then show ?case by simp
next
  case (Cons new news)
  from Cons.IH [of "mergeEdge clk rnd st new"] Cons.prems
  have "e \<in> set (fst (mergeEdge clk rnd st new))
        \<or> (\<exists>x \<in> set news. efrom e = efrom x \<and> eto e = eto x)" by simp
  then show ?case using mergeEdge_edges [of e clk rnd st new] by auto
qed

lemma merge_nodes_eq:
  "nodes (mergeMindmapUpdates clk rnd g d) = fst (foldl (mergeNode clk rnd) (nodes g, 0) (newNodes d))"
  by (simp add: mergeMindmapUpdates_def split: prod.splits)

lemma merge_keeps_ids:
  "set (map nid (nodes g)) \<subseteq> set (map nid (nodes (mergeMindmapUpdates clk rnd g d)))"
  unfolding merge_nodes_eq using foldl_mergeNode_ids [of "(nodes g, 0)" clk rnd "newNodes d"] by simp

lemma merge_edges_origin:
  assumes "e \<in> set (edges (mergeMindmapUpdates clk rnd g d))"
  shows "e \<in> set (edges g) \<or> (\<exists>new \<in> set (newEdges d). efrom e = efrom new \<and> eto e = eto new)"
proof -
  obtain ns k where n: "foldl (mergeNode clk rnd) (nodes g, 0) (newNodes d) = (ns, k)"
    by (cases "foldl (mergeNode clk rnd) (nodes g, 0) (newNodes d)")
  have "edges (mergeMindmapUpdates clk rnd g d) = fst (foldl (mergeEdge clk rnd) (edges g, k) (newEdges d))"
    by (simp add: mergeMindmapUpdates_def n split: prod.splits)
  with assms foldl_mergeEdge_edges [of e clk rnd "(edges g, k)" "newEdges d"]
  show ?thesis by simp
qed

lemma merge_no_dangling:
  assumes "noDanglingEdges g"
    and "\<forall>new \<in> set (newEdges d).
           efrom new \<in> set (map nid (nodes (mergeMindmapUpdates clk rnd g d)))
         \<and> eto new \<in> set (map nid (nodes (mergeMindmapUpdates clk rnd g d)))"
  shows "noDanglingEdges (mergeMindmapUpdates clk rnd g d)"
  unfolding noDanglingEdges_def
proof (intro ballI)
  fix e assume "e \<in> set (edges (mergeMindmapUpdates clk rnd g d))"
  from merge_edges_origin [OF this]
  show "efrom e \<in> set (map nid (nodes (mergeMindmapUpdates clk rnd g d))) \<and>
        eto e \<in> set (map nid (nodes (mergeMindmapUpdates clk rnd g d)))"
  proof
    assume "e \<in> set (edges g)"
    with assms(1) have "efrom e \<in> set (map nid (nodes g))" "eto e \<in> set (map nid (nodes g))"
      by (auto simp: noDanglingEdges_def)
    then show ?thesis using merge_keeps_ids [of g clk rnd d] by blast
  next
    assume "\<exists>new \<in> set (newEdges d). efrom e = efrom new \<and> eto e = eto new"
    then show ?thesis using assms(2) by auto
  qed
qed

text \<open>
  Claim C1, amended. Summarization of a graph with no dangling edge gives a graph with no
  dangling edge. An edge rewritten by \<open>updateEdgesForSummaries\<close> never keeps an endpoint
  among the collapsed ids: each endpoint of a result edge is the id of a summary node or an
  endpoint that was not collapsed, and an edge whose collapsed endpoint is in no summary
  node is dropped. The merge keeps the id of every existing node and checks no endpoint of
  an incoming edge: its result has no dangling edge when the existing graph has none and
  both endpoints of every incoming edge are ids of nodes of the result.
\<close>

theorem C1_no_dangling_edges:
  "(noDanglingEdges m \<longrightarrow> noDanglingEdges (summarizeOlderNodes clk m maxNodes))
   \<and> (\<forall>e' \<in> set (updateEdgesForSummaries es oldNodes summaryNodes).
         (efrom e' \<in> set (map nid summaryNodes) \<or> efrom e' \<notin> set (map nid oldNodes))
       \<and> (eto e' \<in> set (map nid summaryNodes) \<or> eto e' \<notin> set (map nid oldNodes)))
   \<and> ((efrom e \<in> set (map nid oldNodes) \<and> (\<forall>s \<in> set summaryNodes. \<not> summarizes (efrom e) s))
        \<or> (eto e \<in> set (map nid oldNodes) \<and> (\<forall>s \<in> set summaryNodes. \<not> summarizes (eto e) s))
        \<longrightarrow> updateEdge oldNodes summaryNodes e = [])
   \<and> set (map nid (nodes g)) \<subseteq> set (map nid (nodes (mergeMindmapUpdates clk rnd g d)))
   \<and> (noDanglingEdges g
        \<and> (\<forall>new \<in> set (newEdges d).
              efrom new \<in> set (map nid (nodes (mergeMindmapUpdates clk rnd g d)))
            \<and> eto new \<in> set (map nid (nodes (mergeMindmapUpdates clk rnd g d))))
        \<longrightarrow> noDanglingEdges (mergeMindmapUpdates clk rnd g d))"
proof -
  have a: "noDanglingEdges m \<longrightarrow> noDanglingEdges (summarizeOlderNodes clk m maxNodes)"
    using summarize_no_dangling by blast
  have b: "\<forall>e' \<in> set (updateEdgesForSummaries es oldNodes summaryNodes).
         (efrom e' \<in> set (map nid summaryNodes) \<or> efrom e' \<notin> set (map nid oldNodes))
       \<and> (eto e' \<in> set (map nid summaryNodes) \<or> eto e' \<notin> set (map nid oldNodes))"
  proof
    fix e' assume "e' \<in> set (updateEdgesForSummaries es oldNodes summaryNodes)"
    from updateEdges_endpoints [OF this]
    show "(efrom e' \<in> set (map nid summaryNodes) \<or> efrom e' \<notin> set (map nid oldNodes))
       \<and> (eto e' \<in> set (map nid summaryNodes) \<or> eto e' \<notin> set (map nid oldNodes))"
      by metis
  qed
  have c: "set (map nid (nodes g)) \<subseteq> set (map nid (nodes (mergeMindmapUpdates clk rnd g d)))"
    by (rule merge_keeps_ids)
  have mg: "noDanglingEdges g
        \<and> (\<forall>new \<in> set (newEdges d).
              efrom new \<in> set (map nid (nodes (mergeMindmapUpdates clk rnd g d)))
            \<and> eto new \<in> set (map nid (nodes (mergeMindmapUpdates clk rnd g d))))
        \<longrightarrow> noDanglingEdges (mergeMindmapUpdates clk rnd g d)"
    using merge_no_dangling by blast
  have u: "(efrom e \<in> set (map nid oldNodes) \<and> (\<forall>s \<in> set summaryNodes. \<not> summarizes (efrom e) s))
        \<or> (eto e \<in> set (map nid oldNodes) \<and> (\<forall>s \<in> set summaryNodes. \<not> summarizes (eto e) s))
        \<longrightarrow> updateEdge oldNodes summaryNodes e = []"
    using updateEdge_unresolved [of e oldNodes summaryNodes] by blast
  from a b u c mg show ?thesis by blast
qed

lemma threeTopicGraph_no_dangling: "noDanglingEdges threeTopicGraph"
  by (simp add: noDanglingEdges_def threeTopicGraph_def timedNode_def topicNode_def
      plainEdge_def)

lemma budgetGraph_no_dangling: "noDanglingEdges budgetGraph"
  by (simp add: noDanglingEdges_def budgetGraph_def)

lemma merge_link:
  "nodes (mergeMindmapUpdates exampleClock exampleRandom budgetGraph linkDelta)
     = [topicNode ''n1'' ''Budget'']"
  by (simp add: mergeMindmapUpdates_def linkDelta_def budgetGraph_def split: prod.splits)

theorem C1_no_dangling_edges_witness:
  "noDanglingEdges threeTopicGraph
   \<and> \<not> int (length (nodes threeTopicGraph)) \<le> 2
   \<and> noDanglingEdges (summarizeOlderNodes exampleClock threeTopicGraph 2)
   \<and> noDanglingEdges budgetGraph
   \<and> noDanglingEdges (mergeMindmapUpdates exampleClock exampleRandom budgetGraph linkDelta)"
proof -
  have h: "\<forall>new \<in> set (newEdges linkDelta).
      efrom new \<in> set (map nid (nodes
        (mergeMindmapUpdates exampleClock exampleRandom budgetGraph linkDelta)))
    \<and> eto new \<in> set (map nid (nodes
        (mergeMindmapUpdates exampleClock exampleRandom budgetGraph linkDelta)))"
    unfolding merge_link by (simp add: linkDelta_def plainEdge_def topicNode_def)
  have big: "\<not> int (length (nodes threeTopicGraph)) \<le> 2"
    by (simp add: threeTopicGraph_def)
  from C1_no_dangling_edges [where m = threeTopicGraph and clk = exampleClock
      and maxNodes = 2 and es = "[]" and oldNodes = "[]" and summaryNodes = "[]"
      and e = "plainEdge ''n1'' ''n1''" and g = budgetGraph and rnd = exampleRandom
      and d = linkDelta]
    threeTopicGraph_no_dangling budgetGraph_no_dangling h big
  show ?thesis by blast
qed

section \<open>Properties of the merge\<close>



lemma nodeFrame_absorbIndices [simp]: "nodeFrame (absorbIndices m inc) = nodeFrame m"
  by (simp add: nodeFrame_def absorbIndices_def Let_def)

lemma indicesOf_absorbIndices [simp]: "indicesOf (absorbIndices m inc) = indicesOf m @ inc"
  by (simp add: indicesOf_def incomingIndices_def absorbIndices_def Let_def emptyNodeMetadata_def
      split: option.splits)











lemma endpoints_idOrGenerated [simp]: "endpoints (e\<lparr>eid := x\<rparr>) = endpoints e"
  by (simp add: endpoints_def)








end
